theory Spec2Isabelle
  imports Main "HOL-Library.Word"
begin

unbundle bit_operations_syntax

section \<open>Bounded integers (src/unnamed/part\_001, the header bounded\_integer.h)\<close>

text \<open>
  The class template \<open>bounded_integer<Integer, MIN_VALUE, MAX_VALUE>\<close> wraps one member
  \<open>Integer value\<close>. The template arguments are explicit arguments of the model:
  \<open>Integer\<close> is a machine integer of \<open>LENGTH('a)\<close> bits, read as two's complement when
  \<open>is_signed\<close> holds and as an unsigned number otherwise (the instance of the repository,
  \<open>sch_mcs_index = bounded_integer<uint8_t, 0, 31>\<close>, is \<open>8 word\<close>, unsigned).

  \<open>srsran_assert\<close> is defined outside the sources; it is taken as enabled, so that it
  stops the program when its condition is false. A call that stops is the value
  \<open>Inl assertion_failure\<close>. (The second fault, a read or write outside a buffer,
  belongs to the packing functions below.)
\<close>

datatype fault = assertion_failure | out_of_bounds

record 'i bounded_integer =
  bi_value :: "'i"

text \<open>The number a value of type \<open>Integer\<close> stands for in a comparison.\<close>

definition ival :: "bool \<Rightarrow> 'a::len word \<Rightarrow> int" where
  "ival is_signed w = (if is_signed then sint w else uint w)"

text \<open>
  \<open>bounded_integer() : value(MAX_VALUE + 1) {}\<close>. The sum is converted to \<open>Integer\<close>,
  which keeps its low \<open>LENGTH('a)\<close> bits: the addition of words. (For a signed
  \<open>Integer\<close> as wide as \<open>int\<close> and \<open>MAX_VALUE\<close> its largest value, C++ leaves the sum
  undefined; the model wraps around there as well.)
\<close>

definition bounded_integer_default :: "'a::len word \<Rightarrow> 'a word bounded_integer" where
  "bounded_integer_default MAX_VALUE = \<lparr>bi_value = MAX_VALUE + 1\<rparr>"

text \<open>\<open>bool is_valid() const { return value >= MIN_VALUE and value <= MAX_VALUE; }\<close>\<close>

definition is_valid ::
  "bool \<Rightarrow> 'a::len word \<Rightarrow> 'a word \<Rightarrow> 'a word bounded_integer \<Rightarrow> bool" where
  "is_valid is_signed MIN_VALUE MAX_VALUE this \<longleftrightarrow>
     ival is_signed (bi_value this) \<ge> ival is_signed MIN_VALUE \<and>
     ival is_signed (bi_value this) \<le> ival is_signed MAX_VALUE"

text \<open>
  \<open>void assert_bounds(Integer v) const\<close>: the parameter has type \<open>Integer\<close>, so the
  caller's argument is converted before the comparison.
\<close>

definition assert_bounds ::
  "bool \<Rightarrow> 'a::len word \<Rightarrow> 'a word \<Rightarrow> 'a word \<Rightarrow> fault + unit" where
  "assert_bounds is_signed MIN_VALUE MAX_VALUE v =
     (if ival is_signed v \<ge> ival is_signed MIN_VALUE \<and>
         ival is_signed v \<le> ival is_signed MAX_VALUE
      then Inr () else Inl assertion_failure)"

text \<open>
  \<open>template <typename U> bounded_integer(U v) : value(v) { assert_bounds(v); }\<close>.
  The argument of the integral type \<open>U\<close> is the number \<open>v\<close>; both \<open>value(v)\<close> and the
  call \<open>assert_bounds(v)\<close> convert it to \<open>Integer\<close> (\<open>word_of_int\<close>).
\<close>

definition bounded_integer_from ::
  "bool \<Rightarrow> 'a::len word \<Rightarrow> 'a word \<Rightarrow> int \<Rightarrow> fault + 'a word bounded_integer" where
  "bounded_integer_from is_signed MIN_VALUE MAX_VALUE v =
     (let this = \<lparr>bi_value = word_of_int v\<rparr>
      in case assert_bounds is_signed MIN_VALUE MAX_VALUE (word_of_int v) of
           Inl e \<Rightarrow> Inl e
         | Inr _ \<Rightarrow> Inr this)"

text \<open>
  \<open>template <typename U> bounded_integer& operator=(U v)\<close>: the assertion first, then
  \<open>value = v\<close>.
\<close>

definition bounded_integer_assign ::
  "bool \<Rightarrow> 'a::len word \<Rightarrow> 'a word \<Rightarrow> 'a word bounded_integer \<Rightarrow> int
     \<Rightarrow> fault + 'a word bounded_integer" where
  "bounded_integer_assign is_signed MIN_VALUE MAX_VALUE this v =
     (case assert_bounds is_signed MIN_VALUE MAX_VALUE (word_of_int v) of
        Inl e \<Rightarrow> Inl e
      | Inr _ \<Rightarrow> Inr (this\<lparr>bi_value := word_of_int v\<rparr>))"

section \<open>Packing of 9-bit IQ samples (src/lib/ofh/compression/packing\_utils\_neon.h)\<close>

text \<open>
  A NEON register is the list of its lanes, lane 0 first: \<open>int16x8_t\<close> is a list of eight
  16-bit words, \<open>uint8x16_t\<close> a list of sixteen bytes. Words carry no sign, so the
  reinterpreting casts between signed and unsigned lanes of one width change nothing and
  are left out; those that change the lane width are written out (little-endian, as on
  the target). A \<open>span\<close> is the list of its elements and a pointer into it is an offset.
  A read or a write that leaves the span is the fault \<open>out_of_bounds\<close>.
\<close>

type_synonym int16x8_t = "16 word list"
type_synonym uint16x8_t = "16 word list"
type_synonym int8x16_t = "8 word list"
type_synonym uint8x16_t = "8 word list"

definition bind :: "fault + 'a \<Rightarrow> ('a \<Rightarrow> fault + 'b) \<Rightarrow> fault + 'b" where
  "bind m f = (case m of Inl e \<Rightarrow> Inl e | Inr x \<Rightarrow> f x)"

definition load :: "'a list \<Rightarrow> nat \<Rightarrow> nat \<Rightarrow> fault + 'a list" where
  "load mem p n = (if p + n \<le> length mem then Inr (take n (drop p mem)) else Inl out_of_bounds)"

definition store :: "'a list \<Rightarrow> nat \<Rightarrow> 'a list \<Rightarrow> fault + 'a list" where
  "store mem p vs =
     (if p + length vs \<le> length mem
      then Inr (take p mem @ vs @ drop (p + length vs) mem) else Inl out_of_bounds)"

subsection \<open>The intrinsics the two functions use\<close>

text \<open>\<open>vcreate_s16\<close>, \<open>vcreate_u8\<close>: the lanes of a 64-bit constant, lowest bits first.\<close>

definition vcreate_s16 :: "64 word \<Rightarrow> 16 word list" where
  "vcreate_s16 a = map (\<lambda>i. ucast (drop_bit (16 * i) a)) [0..<4]"

definition vcreate_u8 :: "64 word \<Rightarrow> 8 word list" where
  "vcreate_u8 a = map (\<lambda>i. ucast (drop_bit (8 * i) a)) [0..<8]"

definition vcombine_s16 :: "16 word list \<Rightarrow> 16 word list \<Rightarrow> int16x8_t" where
  "vcombine_s16 low high = low @ high"

definition vcombine_u8 :: "8 word list \<Rightarrow> 8 word list \<Rightarrow> uint8x16_t" where
  "vcombine_u8 low high = low @ high"

text \<open>
  \<open>vshlq_s16\<close>, \<open>vshlq_u16\<close>: each lane is shifted by the signed low byte of the matching
  lane of the second register, to the left when that is positive and to the right
  (arithmetically for signed lanes, logically for unsigned ones) when it is negative.
\<close>

definition shift_of :: "16 word \<Rightarrow> int" where
  "shift_of b = sint (ucast b :: 8 word)"

definition vshlq_s16 :: "int16x8_t \<Rightarrow> int16x8_t \<Rightarrow> int16x8_t" where
  "vshlq_s16 a b =
     map2 (\<lambda>x s. if 0 \<le> shift_of s then push_bit (nat (shift_of s)) x
                 else signed_drop_bit (nat (- shift_of s)) x) a b"

definition vshlq_u16 :: "uint16x8_t \<Rightarrow> int16x8_t \<Rightarrow> uint16x8_t" where
  "vshlq_u16 a b =
     map2 (\<lambda>x s. if 0 \<le> shift_of s then push_bit (nat (shift_of s)) x
                 else drop_bit (nat (- shift_of s)) x) a b"

definition vshrq_n_s16 :: "int16x8_t \<Rightarrow> nat \<Rightarrow> int16x8_t" where
  "vshrq_n_s16 a n = map (signed_drop_bit n) a"

definition vandq_s16 :: "int16x8_t \<Rightarrow> int16x8_t \<Rightarrow> int16x8_t" where
  "vandq_s16 a b = map2 (AND) a b"

definition vorrq_u8 :: "uint8x16_t \<Rightarrow> uint8x16_t \<Rightarrow> uint8x16_t" where
  "vorrq_u8 a b = map2 (OR) a b"

text \<open>The bytes of eight 16-bit lanes, and the 16-bit lanes of sixteen bytes.\<close>

definition vreinterpretq_s8_s16 :: "int16x8_t \<Rightarrow> int8x16_t" where
  "vreinterpretq_s8_s16 a = concat (map (\<lambda>w. [ucast w, ucast (drop_bit 8 w)]) a)"

fun vreinterpretq_u16_u8 :: "uint8x16_t \<Rightarrow> uint16x8_t" where
  "vreinterpretq_u16_u8 (lo # hi # r) =
     (ucast lo OR push_bit 8 (ucast hi)) # vreinterpretq_u16_u8 r"
| "vreinterpretq_u16_u8 _ = []"

text \<open>
  \<open>vqtbl1q_s8\<close>, \<open>vqtbl2q_u8\<close>: table look-up; an index outside the table (16 bytes, or
  32 for the pair of registers) gives 0.
\<close>

definition vqtbl1q_s8 :: "int8x16_t \<Rightarrow> uint8x16_t \<Rightarrow> int8x16_t" where
  "vqtbl1q_s8 t idx = map (\<lambda>i. if unat i < 16 then t ! unat i else 0) idx"

definition vqtbl2q_u8 :: "uint8x16_t \<times> uint8x16_t \<Rightarrow> uint8x16_t \<Rightarrow> uint8x16_t" where
  "vqtbl2q_u8 t idx = map (\<lambda>i. if unat i < 32 then (fst t @ snd t) ! unat i else 0) idx"

text \<open>\<open>vextq_u8 a b n\<close>: sixteen bytes of \<open>a\<close> followed by \<open>b\<close>, from byte \<open>n\<close> of \<open>a\<close>.\<close>

definition vextq_u8 :: "uint8x16_t \<Rightarrow> uint8x16_t \<Rightarrow> nat \<Rightarrow> uint8x16_t" where
  "vextq_u8 a b n = drop n a @ take n b"

definition vdupq_n_u8 :: "8 word \<Rightarrow> uint8x16_t" where
  "vdupq_n_u8 v = replicate 16 v"

definition vget_low_u8 :: "uint8x16_t \<Rightarrow> 8 word list" where
  "vget_low_u8 a = take 8 a"

text \<open>
  \<open>vreinterpret_u64_u8\<close> reads eight bytes as one 64-bit lane and \<open>vst1_u64\<close> writes the
  eight bytes of such a lane; \<open>vst1q_lane_u8\<close> writes one byte lane, \<open>vld1q_u8\<close> reads
  sixteen bytes and \<open>vst1q_s16\<close> writes eight 16-bit lanes.
\<close>

definition vreinterpret_u64_u8 :: "8 word list \<Rightarrow> 64 word" where
  "vreinterpret_u64_u8 a = foldr (\<lambda>b w. ucast b OR push_bit 8 w) a 0"

definition vst1_u64 :: "8 word list \<Rightarrow> nat \<Rightarrow> 64 word \<Rightarrow> fault + 8 word list" where
  "vst1_u64 mem p v = store mem p (map (\<lambda>i. ucast (drop_bit (8 * i) v)) [0..<8])"

definition vst1q_lane_u8 ::
  "8 word list \<Rightarrow> nat \<Rightarrow> uint8x16_t \<Rightarrow> nat \<Rightarrow> fault + 8 word list" where
  "vst1q_lane_u8 mem p v lane = store mem p [v ! lane]"

definition vld1q_u8 :: "8 word list \<Rightarrow> nat \<Rightarrow> fault + uint8x16_t" where
  "vld1q_u8 mem p = load mem p 16"

definition vst1q_s16 :: "16 word list \<Rightarrow> nat \<Rightarrow> int16x8_t \<Rightarrow> fault + 16 word list" where
  "vst1q_s16 mem p v = store mem p v"

subsection \<open>The packing and unpacking functions\<close>

text \<open>\<open>pack_neon_register_9b_big_endian(int16x8_t reg)\<close>\<close>

definition pack_neon_register_9b_big_endian :: "int16x8_t \<Rightarrow> uint8x16_t" where
  "pack_neon_register_9b_big_endian reg =
     (let shift_mask_s16 = vcombine_s16 (vcreate_s16 0x0004000500060007) (vcreate_s16 0x0000000100020003);
          iq_shl_s16 = vshlq_s16 reg shift_mask_s16;
          mask_s16 = vcombine_s16 (vcreate_s16 0x1ff03fe07fc0ff80) (vcreate_s16 0x01ff03fe07fc0ff8);
          iq_shl_s16 = vandq_s16 iq_shl_s16 mask_s16;
          iq_shl_s8 = vreinterpretq_s8_s16 iq_shl_s16;
          tmp_iq_0_s8 = vqtbl1q_s8 iq_shl_s8
             (vcombine_u8 (vcreate_u8 0x0c0a0806040200ff) (vcreate_u8 0xffffffffffffff0e));
          tmp_iq_1_s8 = vqtbl1q_s8 iq_shl_s8
             (vcombine_u8 (vcreate_u8 0x0f0d0b0907050301) (vcreate_u8 0xffffffffffffffff))
      in vorrq_u8 tmp_iq_0_s8 tmp_iq_1_s8)"

definition BYTES_PER_PRB_9BIT_COMPRESSION :: nat where
  "BYTES_PER_PRB_9BIT_COMPRESSION = 27"

definition bytes_per_half_reg :: nat where
  "bytes_per_half_reg = 8"

text \<open>
  \<open>pack_prb_9b_big_endian(span<uint8_t> comp_prb_buffer, int16x8x3_t regs)\<close>: the three
  registers \<open>regs.val[0..2]\<close> are a triple; the result is the buffer as the function
  leaves it. The \<open>srsran_assert\<close> on the size of the buffer comes first.
\<close>

definition pack_prb_9b_big_endian ::
  "8 word list \<Rightarrow> int16x8_t \<times> int16x8_t \<times> int16x8_t \<Rightarrow> fault + 8 word list" where
  "pack_prb_9b_big_endian comp_prb_buffer regs =
     (case regs of (val0, val1, val2) \<Rightarrow>
      if length comp_prb_buffer \<noteq> BYTES_PER_PRB_9BIT_COMPRESSION then Inl assertion_failure
      else
        let res_packed_bytes_0_u8 = pack_neon_register_9b_big_endian val0;
            res_packed_bytes_1_u8 = pack_neon_register_9b_big_endian val1;
            res_packed_bytes_2_u8 = pack_neon_register_9b_big_endian val2;
            data = 0
        in bind (vst1_u64 comp_prb_buffer data (vreinterpret_u64_u8 (vget_low_u8 res_packed_bytes_0_u8))) (\<lambda>mem.
           bind (vst1q_lane_u8 mem (data + bytes_per_half_reg) res_packed_bytes_0_u8 bytes_per_half_reg) (\<lambda>mem.
           let data = data + (bytes_per_half_reg + 1) in
           bind (vst1_u64 mem data (vreinterpret_u64_u8 (vget_low_u8 res_packed_bytes_1_u8))) (\<lambda>mem.
           bind (vst1q_lane_u8 mem (data + bytes_per_half_reg) res_packed_bytes_1_u8 bytes_per_half_reg) (\<lambda>mem.
           let data = data + (bytes_per_half_reg + 1) in
           bind (vst1_u64 mem data (vreinterpret_u64_u8 (vget_low_u8 res_packed_bytes_2_u8))) (\<lambda>mem.
           vst1q_lane_u8 mem (data + bytes_per_half_reg) res_packed_bytes_2_u8 bytes_per_half_reg))))))"

text \<open>
  \<open>unpack_prb_9b_big_endian(span<int16_t> unpacked_iq_data, span<const uint8_t> packed_data)\<close>:
  the result is the output span as the function leaves it.
\<close>

definition unpack_prb_9b_big_endian ::
  "16 word list \<Rightarrow> 8 word list \<Rightarrow> fault + 16 word list" where
  "unpack_prb_9b_big_endian unpacked_iq_data packed_data =
     bind (vld1q_u8 packed_data 0) (\<lambda>val0.
     bind (vld1q_u8 packed_data 11) (\<lambda>val1.
     let val1 = vextq_u8 val1 (vdupq_n_u8 0) 5;
         packed_vec_u8x2 = (val0, val1);
         tmp_packed_0_u8 = vqtbl2q_u8 packed_vec_u8x2
           (vcombine_u8 (vcreate_u8 0x0304020301020001) (vcreate_u8 0x0708060705060405));
         tmp_packed_1_u8 = vqtbl2q_u8 packed_vec_u8x2
           (vcombine_u8 (vcreate_u8 0x0c0d0b0c0a0b090a) (vcreate_u8 0x10110f100e0f0d0e));
         tmp_packed_2_u8 = vqtbl2q_u8 packed_vec_u8x2
           (vcombine_u8 (vcreate_u8 0x1516141513141213) (vcreate_u8 0x191a181917181617));
         shl_mask_s16 = vcombine_s16 (vcreate_s16 0x0003000200010000) (vcreate_s16 0x0007000600050004);
         shl_tmp_packed_0_u8 = vshlq_u16 (vreinterpretq_u16_u8 tmp_packed_0_u8) shl_mask_s16;
         shl_tmp_packed_1_u8 = vshlq_u16 (vreinterpretq_u16_u8 tmp_packed_1_u8) shl_mask_s16;
         shl_tmp_packed_2_u8 = vshlq_u16 (vreinterpretq_u16_u8 tmp_packed_2_u8) shl_mask_s16;
         unpacked_data_0_s16 = vshrq_n_s16 shl_tmp_packed_0_u8 7;
         unpacked_data_1_s16 = vshrq_n_s16 shl_tmp_packed_1_u8 7;
         unpacked_data_2_s16 = vshrq_n_s16 shl_tmp_packed_2_u8 7
     in bind (vst1q_s16 unpacked_iq_data 0 unpacked_data_0_s16) (\<lambda>out.
        bind (vst1q_s16 out 8 unpacked_data_1_s16) (\<lambda>out.
        vst1q_s16 out 16 unpacked_data_2_s16))))"

subsection \<open>Vocabulary of the proof\<close>

text \<open>
  Lane \<open>k\<close> of a register, shifted and masked as the packing does it, its two bytes, and
  the sample the unpacking reads back from two neighbouring bytes of the packed data.
\<close>

definition lane_word :: "nat \<Rightarrow> 16 word \<Rightarrow> 16 word" where
  "lane_word k x = push_bit (7 - k) x AND push_bit (7 - k) (mask 9)"

definition hi9 :: "nat \<Rightarrow> 16 word \<Rightarrow> 8 word" where
  "hi9 k x = ucast (drop_bit 8 (lane_word k x))"

definition lo9 :: "nat \<Rightarrow> 16 word \<Rightarrow> 8 word" where
  "lo9 k x = ucast (lane_word k x)"

definition lane9 :: "nat \<Rightarrow> 8 word \<Rightarrow> 8 word \<Rightarrow> 16 word" where
  "lane9 k a b = signed_drop_bit 7 (push_bit k (ucast b OR push_bit 8 (ucast a)))"

text \<open>Twenty-four samples and their packed bytes, for the check on a concrete block.\<close>

definition example_samples :: "16 word list" where
  "example_samples = [1, - 1, 255, - 256, 0, 100, - 100, 7, 8, - 9, 10, - 11,
     12, - 13, 14, - 15, 16, - 17, 18, - 19, 20, - 21, 22, 255]"

definition example_packed :: "8 word list" where
  "example_packed = [0, 255, 223, 240, 0, 1, 147, 56, 7, 4, 125, 193, 95, 80, 103, 204, 29,
     241, 8, 123, 194, 94, 208, 167, 172, 44, 255]"

section \<open>Slice allocators over the cell grid allocator (src/unnamed/part\_003)\<close>

text \<open>
  Modelled from the spec: the declarations of \<open>alloc_status\<close> and \<open>alloc_result\<close> are not
  among the sources. The header uses the value \<open>alloc_status::success\<close> and the fields
  \<open>status\<close> and \<open>alloc_nof_rbs\<close> of a result; the failures are the three the design names
  for the grid allocator: no PDCCH candidate, no RB capacity, and a cell index the
  allocator does not know.
\<close>

datatype alloc_status = success | no_pdcch_candidate | no_rb_capacity | unknown_cell

record alloc_result =
  status :: alloc_status
  alloc_nof_rbs :: nat

text \<open>
  \<open>dl_slice_ue_cell_grid_allocator\<close> holds two references, \<open>pdsch_alloc\<close> to a
  \<open>ue_cell_grid_allocator\<close> and \<open>slice_candidate\<close> to a \<open>dl_ran_slice_candidate\<close>. The model
  passes the two objects and returns them as the call leaves them. The members it calls
  are declared, not defined, in the sources, so they are arguments: \<open>allocate_dl_grant\<close>
  of the grid allocator (grant, slice id and allocator to result and allocator), and
  \<open>id\<close> and \<open>store_grant\<close> of the slice candidate. The grid allocator has no member that
  refers to a slice candidate, so its call leaves the candidate alone.

  \<^verbatim>\<open>
  const alloc_result result = pdsch_alloc.allocate_dl_grant(grant, slice_candidate.id());
  if (result.status == alloc_status::success) {
    slice_candidate.store_grant(result.alloc_nof_rbs);
  }
  return result;
  \<close>
\<close>

definition dl_slice_ue_cell_grid_allocator_allocate_dl_grant ::
  "('grant \<Rightarrow> 'id \<Rightarrow> 'alloc \<Rightarrow> alloc_result \<times> 'alloc) \<Rightarrow> ('cand \<Rightarrow> 'id) \<Rightarrow>
     (nat \<Rightarrow> 'cand \<Rightarrow> 'cand) \<Rightarrow> 'grant \<Rightarrow> 'alloc \<times> 'cand \<Rightarrow>
     alloc_result \<times> 'alloc \<times> 'cand" where
  "dl_slice_ue_cell_grid_allocator_allocate_dl_grant allocate_dl_grant candidate_id store_grant
       grant this =
     (case this of (pdsch_alloc, slice_candidate) \<Rightarrow>
        case allocate_dl_grant grant (candidate_id slice_candidate) pdsch_alloc of
          (result, pdsch_alloc') \<Rightarrow>
            if status result = success
            then (result, pdsch_alloc', store_grant (alloc_nof_rbs result) slice_candidate)
            else (result, pdsch_alloc', slice_candidate))"

text \<open>\<open>ul_slice_ue_cell_grid_allocator::allocate_ul_grant\<close>, the same with \<open>pusch_alloc\<close>.\<close>

definition ul_slice_ue_cell_grid_allocator_allocate_ul_grant ::
  "('grant \<Rightarrow> 'id \<Rightarrow> 'alloc \<Rightarrow> alloc_result \<times> 'alloc) \<Rightarrow> ('cand \<Rightarrow> 'id) \<Rightarrow>
     (nat \<Rightarrow> 'cand \<Rightarrow> 'cand) \<Rightarrow> 'grant \<Rightarrow> 'alloc \<times> 'cand \<Rightarrow>
     alloc_result \<times> 'alloc \<times> 'cand" where
  "ul_slice_ue_cell_grid_allocator_allocate_ul_grant allocate_ul_grant candidate_id store_grant
       grant this =
     (case this of (pusch_alloc, slice_candidate) \<Rightarrow>
        case allocate_ul_grant grant (candidate_id slice_candidate) pusch_alloc of
          (result, pusch_alloc') \<Rightarrow>
            if status result = success
            then (result, pusch_alloc', store_grant (alloc_nof_rbs result) slice_candidate)
            else (result, pusch_alloc', slice_candidate))"

text \<open>
  A small allocator and a slice candidate to run the two functions on: the allocator is
  a count of free RBs and grants a request of \<open>n\<close> RBs when that many are free; the
  candidate is its id and the list of the arguments \<open>store_grant\<close> was called with.
\<close>

definition counting_allocate :: "nat \<Rightarrow> nat \<Rightarrow> nat \<Rightarrow> alloc_result \<times> nat" where
  "counting_allocate n slice_id free =
     (if n \<le> free then (\<lparr>status = success, alloc_nof_rbs = n\<rparr>, free - n)
      else (\<lparr>status = no_rb_capacity, alloc_nof_rbs = 0\<rparr>, free))"

definition logging_store_grant :: "nat \<Rightarrow> nat \<times> nat list \<Rightarrow> nat \<times> nat list" where
  "logging_store_grant n cand = (fst cand, snd cand @ [n])"

section \<open>The TDD pattern evaluator\<close>

text \<open>
  Modelled from the spec: the evaluator of the TDD pattern (the functions behind
  \<open>is_fully_dl_enabled\<close> and \<open>is_fully_ul_enabled\<close> of the cell configuration, which the
  test \<open>scheduler_tdd_test.cpp\<close> calls) is not among the sources. The definitions follow
  section 4.1 of the design: a configuration has one or two sub-patterns
  \<open>{period_in_slots, nof_dl_slots, nof_dl_symbols, nof_ul_slots, nof_ul_symbols}\<close>; two
  sub-patterns concatenate their periods, the overall period is the sum, and a slot is
  classified by its index modulo the overall period. A slot point is the count of its
  slot.
\<close>

record tdd_ul_dl_pattern =
  period_in_slots :: nat
  nof_dl_slots :: nat
  nof_dl_symbols :: nat
  nof_ul_slots :: nat
  nof_ul_symbols :: nat

text \<open>Modelled from the spec: one sub-pattern, or two.\<close>

record tdd_ul_dl_config_common =
  pattern1 :: tdd_ul_dl_pattern
  pattern2 :: "tdd_ul_dl_pattern option"

text \<open>Modelled from the spec: a slot is fully DL, fully UL, or special (flexible).\<close>

datatype slot_class = fully_dl | fully_ul | special

text \<open>
  Modelled from the spec: inside one sub-pattern the full DL slots come first and the
  full UL slots last; the slots between them are special (DL symbols at the start, UL
  symbols at the end).
\<close>

definition classify_in_pattern :: "tdd_ul_dl_pattern \<Rightarrow> nat \<Rightarrow> slot_class" where
  "classify_in_pattern p i =
     (if i < nof_dl_slots p then fully_dl
      else if period_in_slots p - nof_ul_slots p \<le> i then fully_ul
      else special)"

text \<open>Modelled from the spec: the overall period.\<close>

definition nof_slots_per_tdd_period :: "tdd_ul_dl_config_common \<Rightarrow> nat" where
  "nof_slots_per_tdd_period cfg =
     period_in_slots (pattern1 cfg) +
     (case pattern2 cfg of None \<Rightarrow> 0 | Some p2 \<Rightarrow> period_in_slots p2)"

text \<open>
  Modelled from the spec: the class of a slot. The index inside the overall period
  selects the sub-pattern: the first one for the indices below its period, the second
  one, counted from its own start, for the rest.
\<close>

definition classify_slot :: "tdd_ul_dl_config_common \<Rightarrow> nat \<Rightarrow> slot_class" where
  "classify_slot cfg slot =
     (let i = slot mod nof_slots_per_tdd_period cfg
      in if i < period_in_slots (pattern1 cfg) then classify_in_pattern (pattern1 cfg) i
         else case pattern2 cfg of
                None \<Rightarrow> classify_in_pattern (pattern1 cfg) i
              | Some p2 \<Rightarrow> classify_in_pattern p2 (i - period_in_slots (pattern1 cfg)))"

text \<open>
  The configuration that the test leaves commented out, \<open>{6, 3, 4, 2, 4}\<close> followed by
  \<open>{4, 4, 0, 0, 0}\<close>.
\<close>

definition example_tdd_cfg :: tdd_ul_dl_config_common where
  "example_tdd_cfg =
     \<lparr>pattern1 = \<lparr>period_in_slots = 6, nof_dl_slots = 3, nof_dl_symbols = 4,
                   nof_ul_slots = 2, nof_ul_symbols = 4\<rparr>,
      pattern2 = Some \<lparr>period_in_slots = 4, nof_dl_slots = 4, nof_dl_symbols = 0,
                        nof_ul_slots = 0, nof_ul_symbols = 0\<rparr>\<rparr>"

section \<open>The resource grid and the cell grid allocator\<close>

text \<open>
  Modelled from the spec: the header \<open>src/unnamed/part_003\<close> declares the class
  \<open>ue_cell_grid_allocator\<close> (its members \<open>cells\<close>, \<open>slots_with_no_pdsch_space\<close>,
  \<open>slots_with_no_pusch_space\<close>, \<open>dl_attempts_count\<close>, \<open>ul_attempts_count\<close> and the
  signatures of \<open>add_cell\<close>, \<open>slot_indication\<close>, \<open>allocate_dl_grant\<close> and
  \<open>allocate_ul_grant\<close>), but the bodies of its member functions and the classes
  \<open>cell_resource_allocator\<close>, \<open>pdcch_resource_allocator\<close> and \<open>uci_allocator\<close> are not
  among the sources. Everything in this section follows sections 3, 4.2, 4.3 and 9 of the
  design, with the names of the header where it has them.
\<close>

subsection \<open>The grid of one slot\<close>

text \<open>
  Modelled from the spec: a position of a slot's grid is free, reserved for control, or
  allocated to a terminal's grant. A reservation names its owner, its slot, a set of RBs
  and a range of symbols (first symbol, symbol after the last).
\<close>

datatype direction = DL | UL

text \<open>Modelled from the spec: who holds a position that is not free.\<close>

datatype grid_owner = control | terminal nat

text \<open>Modelled from the spec: one reservation of a grid.\<close>

record reservation =
  owner :: grid_owner
  res_slot :: nat
  res_rbs :: "nat list"
  res_symbols :: "nat \<times> nat"

text \<open>Modelled from the spec: the (RB, symbol) positions a reservation occupies.\<close>

definition positions :: "reservation \<Rightarrow> (nat \<times> nat) set" where
  "positions r = set (res_rbs r) \<times> {fst (res_symbols r) ..< snd (res_symbols r)}"

text \<open>Modelled from the spec: two reservations share an RB and a symbol.\<close>

definition collides :: "reservation \<Rightarrow> reservation \<Rightarrow> bool" where
  "collides a b \<longleftrightarrow>
     (\<exists>rb \<in> set (res_rbs a). rb \<in> set (res_rbs b)) \<and>
     max (fst (res_symbols a)) (fst (res_symbols b)) <
       min (snd (res_symbols a)) (snd (res_symbols b))"

text \<open>
  Modelled from the spec: "attempting to reserve an already-occupied position fails with a
  capacity error rather than silently overlapping". \<open>None\<close> is the capacity error.
\<close>

definition grid_reserve :: "reservation \<Rightarrow> reservation list \<Rightarrow> reservation list option" where
  "grid_reserve r grid = (if \<exists>r' \<in> set grid. collides r r' then None else Some (r # grid))"

subsection \<open>The rolling window of a cell\<close>

text \<open>
  Modelled from the spec: a slot has a grid for each direction; the window of a cell is
  "a fixed-capacity array indexed by slot modulo the horizon length", and "closing a slot
  is overwriting its array slot on the next \<open>slot_indication\<close>".
\<close>

record slot_grid =
  dl_grid :: "reservation list"
  ul_grid :: "reservation list"

text \<open>Modelled from the spec: the grid of a slot nothing is reserved in.\<close>

definition empty_slot_grid :: slot_grid where
  "empty_slot_grid = \<lparr>dl_grid = [], ul_grid = []\<rparr>"

text \<open>Modelled from the spec: the grid of a slot for one direction, read and written.\<close>

fun grid_of :: "direction \<Rightarrow> slot_grid \<Rightarrow> reservation list" where
  "grid_of DL g = dl_grid g"
| "grid_of UL g = ul_grid g"

fun with_grid :: "direction \<Rightarrow> reservation list \<Rightarrow> slot_grid \<Rightarrow> slot_grid" where
  "with_grid DL rs g = g\<lparr>dl_grid := rs\<rparr>"
| "with_grid UL rs g = g\<lparr>ul_grid := rs\<rparr>"

text \<open>Modelled from the spec: the window of a cell, its current slot and its array of grids.\<close>

record cell_resource_allocator =
  slot_tx :: nat
  ring :: "slot_grid list"

text \<open>Modelled from the spec: the window of a cell that was just configured, all grids empty.\<close>

definition new_cell_resource_allocator :: "nat \<Rightarrow> cell_resource_allocator" where
  "new_cell_resource_allocator horizon =
     \<lparr>slot_tx = 0, ring = replicate horizon empty_slot_grid\<rparr>"

text \<open>Modelled from the spec: the array slot of a slot, "indexed by slot modulo the horizon".\<close>

definition slot_grid_at :: "cell_resource_allocator \<Rightarrow> nat \<Rightarrow> slot_grid" where
  "slot_grid_at ca sl = ring ca ! (sl mod length (ring ca))"

text \<open>Modelled from the spec: the slots of the look-ahead horizon.\<close>

definition in_window :: "cell_resource_allocator \<Rightarrow> nat \<Rightarrow> bool" where
  "in_window ca sl \<longleftrightarrow> slot_tx ca \<le> sl \<and> sl < slot_tx ca + length (ring ca)"

text \<open>
  Modelled from the spec: a reservation for a slot of the window goes through the check of
  that slot's grid.
\<close>

definition reserve_at ::
  "cell_resource_allocator \<Rightarrow> direction \<Rightarrow> reservation \<Rightarrow> cell_resource_allocator option" where
  "reserve_at ca d r =
     (if \<not> in_window ca (res_slot r) then None
      else case grid_reserve r (grid_of d (slot_grid_at ca (res_slot r))) of
             None \<Rightarrow> None
           | Some rs \<Rightarrow>
               Some (ca\<lparr>ring := (ring ca)[res_slot r mod length (ring ca) :=
                                     with_grid d rs (slot_grid_at ca (res_slot r))]\<rparr>))"

text \<open>
  Modelled from the spec: the window moves to slot \<open>sl\<close>; the array slot of the slot before
  it is overwritten with an empty grid.
\<close>

definition roll :: "nat \<Rightarrow> cell_resource_allocator \<Rightarrow> cell_resource_allocator" where
  "roll sl ca =
     ca\<lparr>slot_tx := sl,
        ring := (ring ca)[(sl + length (ring ca) - 1) mod length (ring ca) :=
                            empty_slot_grid]\<rparr>"

text \<open>
  Modelled from the spec: the grants emitted for a slot and a direction are the
  reservations of that slot's grid that a terminal owns.
\<close>

definition ue_grants :: "cell_resource_allocator \<Rightarrow> nat \<Rightarrow> direction \<Rightarrow> reservation list" where
  "ue_grants ca sl d =
     (if ring ca = [] then []
      else filter (\<lambda>r. res_slot r = sl \<and> owner r \<noteq> control)
             (grid_of d (slot_grid_at ca sl)))"

subsection \<open>The control channel pools\<close>

text \<open>
  Modelled from the spec: a cell has a pool of PDCCH candidates and a pool of PUCCH/UCI
  resources; a reservation takes one while one is left.
\<close>

record pdcch_resource_allocator =
  pdcch_candidates :: nat
  pdcch_reserved :: "nat list"

text \<open>Modelled from the spec: the pool of PUCCH/UCI resources.\<close>

record uci_allocator =
  uci_resources :: nat
  uci_reserved :: "nat list"

text \<open>Modelled from the spec: reserving a PDCCH candidate for a terminal.\<close>

definition pdcch_reserve ::
  "nat \<Rightarrow> pdcch_resource_allocator \<Rightarrow> pdcch_resource_allocator option" where
  "pdcch_reserve ue p =
     (if length (pdcch_reserved p) < pdcch_candidates p
      then Some (p\<lparr>pdcch_reserved := ue # pdcch_reserved p\<rparr>) else None)"

text \<open>Modelled from the spec: reserving a PUCCH/UCI resource for a terminal.\<close>

definition uci_reserve :: "nat \<Rightarrow> uci_allocator \<Rightarrow> uci_allocator option" where
  "uci_reserve ue u =
     (if length (uci_reserved u) < uci_resources u
      then Some (u\<lparr>uci_reserved := ue # uci_reserved u\<rparr>) else None)"

subsection \<open>The allocator\<close>

text \<open>
  Modelled from the spec: the state of \<open>ue_cell_grid_allocator\<close>, with the members of the
  header. A \<open>cell_t\<close> of the header points to the three allocators of its cell; here it
  holds them. A grant request is the terminal, the cell index and the RB count; a request
  for the uplink also says whether a later ACK needs a PUCCH/UCI resource.
\<close>

record cell_t =
  cell_index :: nat
  pdcch_sched :: pdcch_resource_allocator
  uci_alloc :: uci_allocator
  cell_alloc :: cell_resource_allocator

text \<open>Modelled from the spec: a grant request.\<close>

record ue_grant_request =
  user :: nat
  grant_cell_index :: nat
  grant_nof_rbs :: nat
  ack_required :: bool

text \<open>Modelled from the spec: the allocator, with the five data members of the header.\<close>

record ue_cell_grid_allocator =
  cells :: "nat \<Rightarrow> cell_t option"
  slots_with_no_pdsch_space :: "nat list"
  slots_with_no_pusch_space :: "nat list"
  dl_attempts_count :: nat
  ul_attempts_count :: nat

text \<open>Modelled from the spec: the allocator as constructed, without cells.\<close>

definition new_ue_cell_grid_allocator :: ue_cell_grid_allocator where
  "new_ue_cell_grid_allocator =
     \<lparr>cells = (\<lambda>_. None), slots_with_no_pdsch_space = [], slots_with_no_pusch_space = [],
      dl_attempts_count = 0, ul_attempts_count = 0\<rparr>"

text \<open>Modelled from the spec: \<open>add_cell\<close> registers the allocators of a cell.\<close>

definition add_cell ::
  "nat \<Rightarrow> pdcch_resource_allocator \<Rightarrow> uci_allocator \<Rightarrow> cell_resource_allocator \<Rightarrow>
     ue_cell_grid_allocator \<Rightarrow> ue_cell_grid_allocator" where
  "add_cell idx pdcch uci ca this =
     this\<lparr>cells := (cells this)(idx \<mapsto>
        \<lparr>cell_index = idx, pdcch_sched = pdcch, uci_alloc = uci, cell_alloc = ca\<rparr>)\<rparr>"

text \<open>
  Modelled from the spec: \<open>slot_indication\<close> advances the window of every cell, frees the
  control channel pools for the new slot, clears the two lists of slots without space and
  resets the two counters.
\<close>

definition cell_slot_indication :: "nat \<Rightarrow> cell_t \<Rightarrow> cell_t" where
  "cell_slot_indication sl c =
     c\<lparr>pdcch_sched := (pdcch_sched c)\<lparr>pdcch_reserved := []\<rparr>,
       uci_alloc := (uci_alloc c)\<lparr>uci_reserved := []\<rparr>,
       cell_alloc := roll sl (cell_alloc c)\<rparr>"

text \<open>Modelled from the spec: \<open>slot_indication\<close> of the allocator.\<close>

definition slot_indication :: "nat \<Rightarrow> ue_cell_grid_allocator \<Rightarrow> ue_cell_grid_allocator" where
  "slot_indication sl this =
     this\<lparr>cells := (\<lambda>idx. map_option (cell_slot_indication sl) (cells this idx)),
          slots_with_no_pdsch_space := [], slots_with_no_pusch_space := [],
          dl_attempts_count := 0, ul_attempts_count := 0\<rparr>"

text \<open>
  Modelled from the spec: the design does not fix how free RBs are searched in a grid, so
  the search is an argument: from the reservations of a grid and the RB count asked for
  to an RB set and a symbol range, or to nothing when the grid has no space.
\<close>

type_synonym placement_search =
  "reservation list \<Rightarrow> nat \<Rightarrow> (nat list \<times> nat \<times> nat) option"

text \<open>
  Modelled from the spec: "attempt to place the requested number of RBs within the first
  slot(s) that still have space, skipping any slot already recorded as exhausted"; a slot
  whose grid has no space is recorded in the list. The result is the window with the
  grant and the RB count granted, or nothing, and the list as the search leaves it.
\<close>

fun place ::
  "placement_search \<Rightarrow> direction \<Rightarrow> nat \<Rightarrow> nat \<Rightarrow> cell_resource_allocator \<Rightarrow> nat list \<Rightarrow>
     nat list \<Rightarrow> (cell_resource_allocator \<times> nat) option \<times> nat list" where
  "place search d ue n ca [] no_space = (None, no_space)"
| "place search d ue n ca (sl # sls) no_space =
     (if sl \<in> set no_space then place search d ue n ca sls no_space
      else case search (grid_of d (slot_grid_at ca sl)) n of
             None \<Rightarrow> place search d ue n ca sls (no_space @ [sl])
           | Some (rbs, symbols) \<Rightarrow>
               (case reserve_at ca d
                       \<lparr>owner = terminal ue, res_slot = sl, res_rbs = rbs,
                        res_symbols = symbols\<rparr> of
                  None \<Rightarrow> place search d ue n ca sls (no_space @ [sl])
                | Some ca' \<Rightarrow> (Some (ca', length rbs), no_space)))"

text \<open>Modelled from the spec: the slots of the horizon, in order, and the list and the counter
  of a direction.\<close>

definition candidate_slots :: "cell_resource_allocator \<Rightarrow> nat list" where
  "candidate_slots ca = [slot_tx ca ..< slot_tx ca + length (ring ca)]"

fun no_space_list :: "direction \<Rightarrow> ue_cell_grid_allocator \<Rightarrow> nat list" where
  "no_space_list DL this = slots_with_no_pdsch_space this"
| "no_space_list UL this = slots_with_no_pusch_space this"

fun with_no_space_list ::
  "direction \<Rightarrow> nat list \<Rightarrow> ue_cell_grid_allocator \<Rightarrow> ue_cell_grid_allocator" where
  "with_no_space_list DL l this = this\<lparr>slots_with_no_pdsch_space := l\<rparr>"
| "with_no_space_list UL l this = this\<lparr>slots_with_no_pusch_space := l\<rparr>"

fun count_attempt :: "direction \<Rightarrow> ue_cell_grid_allocator \<Rightarrow> ue_cell_grid_allocator" where
  "count_attempt DL this = this\<lparr>dl_attempts_count := dl_attempts_count this + 1\<rparr>"
| "count_attempt UL this = this\<lparr>ul_attempts_count := ul_attempts_count this + 1\<rparr>"

text \<open>
  Modelled from the spec: the algorithm of section 4.3. An unknown cell, no PDCCH
  candidate (or, for an uplink grant that needs it, no PUCCH/UCI resource) and no RB
  capacity are the failures, and a failure keeps the cells as they were; a success
  records the control channel reservations and the grant together and counts the
  allocation. The slice id is the one the slice allocators of the header pass on; they,
  not this function, record the granted RBs against the slice. The bound of the two
  lists of slots is not modelled.
\<close>

definition allocate_grant ::
  "placement_search \<Rightarrow> direction \<Rightarrow> ue_grant_request \<Rightarrow> nat \<Rightarrow> ue_cell_grid_allocator \<Rightarrow>
     alloc_result \<times> ue_cell_grid_allocator" where
  "allocate_grant search d grant slice_id this =
     (case cells this (grant_cell_index grant) of
        None \<Rightarrow> (\<lparr>status = unknown_cell, alloc_nof_rbs = 0\<rparr>, this)
      | Some c \<Rightarrow>
          (case pdcch_reserve (user grant) (pdcch_sched c) of
             None \<Rightarrow> (\<lparr>status = no_pdcch_candidate, alloc_nof_rbs = 0\<rparr>, this)
           | Some pdcch' \<Rightarrow>
               (case (if d = UL \<and> ack_required grant
                      then uci_reserve (user grant) (uci_alloc c)
                      else Some (uci_alloc c)) of
                  None \<Rightarrow> (\<lparr>status = no_pdcch_candidate, alloc_nof_rbs = 0\<rparr>, this)
                | Some uci' \<Rightarrow>
                    (case place search d (user grant) (grant_nof_rbs grant) (cell_alloc c)
                            (candidate_slots (cell_alloc c)) (no_space_list d this) of
                       (None, no_space) \<Rightarrow>
                         (\<lparr>status = no_rb_capacity, alloc_nof_rbs = 0\<rparr>,
                          with_no_space_list d no_space this)
                     | (Some (ca', granted), no_space) \<Rightarrow>
                         (\<lparr>status = success, alloc_nof_rbs = granted\<rparr>,
                          count_attempt d (with_no_space_list d no_space
                            (this\<lparr>cells := (cells this)(grant_cell_index grant \<mapsto>
                               c\<lparr>pdcch_sched := pdcch', uci_alloc := uci',
                                 cell_alloc := ca'\<rparr>)\<rparr>)))))))"

text \<open>Modelled from the spec: the two public operations.\<close>

definition allocate_dl_grant ::
  "placement_search \<Rightarrow> ue_grant_request \<Rightarrow> nat \<Rightarrow> ue_cell_grid_allocator \<Rightarrow>
     alloc_result \<times> ue_cell_grid_allocator" where
  "allocate_dl_grant search grant slice_id this = allocate_grant search DL grant slice_id this"

definition allocate_ul_grant ::
  "placement_search \<Rightarrow> ue_grant_request \<Rightarrow> nat \<Rightarrow> ue_cell_grid_allocator \<Rightarrow>
     alloc_result \<times> ue_cell_grid_allocator" where
  "allocate_ul_grant search grant slice_id this = allocate_grant search UL grant slice_id this"

text \<open>
  Modelled from the spec: the states of the scheduler. It starts without cells; a cell is
  added with an empty window; after that slots are indicated and grants are asked for, in
  any order.
\<close>

inductive reachable :: "placement_search \<Rightarrow> ue_cell_grid_allocator \<Rightarrow> bool"
  for search :: placement_search where
  start: "reachable search new_ue_cell_grid_allocator"
| cell_added: "reachable search this \<Longrightarrow>
     reachable search (add_cell idx pdcch uci (new_cell_resource_allocator horizon) this)"
| slot_indicated: "reachable search this \<Longrightarrow> reachable search (slot_indication sl this)"
| dl_allocated: "reachable search this \<Longrightarrow>
     reachable search (snd (allocate_dl_grant search grant slice_id this))"
| ul_allocated: "reachable search this \<Longrightarrow>
     reachable search (snd (allocate_ul_grant search grant slice_id this))"

subsection \<open>Vocabulary of the proof\<close>

text \<open>No two reservations of a grid collide; the same for a slot, a window, all cells.\<close>

fun compatible :: "reservation list \<Rightarrow> bool" where
  "compatible [] = True"
| "compatible (r # rs) = ((\<forall>r' \<in> set rs. \<not> collides r r') \<and> compatible rs)"

definition grid_ok :: "slot_grid \<Rightarrow> bool" where
  "grid_ok g \<longleftrightarrow> compatible (dl_grid g) \<and> compatible (ul_grid g)"

definition window_ok :: "cell_resource_allocator \<Rightarrow> bool" where
  "window_ok ca \<longleftrightarrow> (\<forall>g \<in> set (ring ca). grid_ok g)"

definition cells_ok :: "ue_cell_grid_allocator \<Rightarrow> bool" where
  "cells_ok this \<longleftrightarrow> (\<forall>idx c. cells this idx = Some c \<longrightarrow> window_ok (cell_alloc c))"

text \<open>
  A search to run the allocator with: the first free RBs of a cell of \<open>nof_rbs\<close> RBs, over
  the 14 symbols of the slot. The example is a cell with 6 RBs and a horizon of 3 slots,
  at slot 1, after a grant of 3 RBs to terminal 1 and a grant of 2 RBs to terminal 2.
\<close>

definition first_fit :: "nat \<Rightarrow> placement_search" where
  "first_fit nof_rbs grid n =
     (let free = filter (\<lambda>rb. \<forall>r \<in> set grid. rb \<notin> set (res_rbs r)) [0..<nof_rbs]
      in if 0 < n \<and> n \<le> length free then Some (take n free, 0, 14) else None)"

definition example_allocator :: ue_cell_grid_allocator where
  "example_allocator =
     snd (allocate_dl_grant (first_fit 6)
            \<lparr>user = 2, grant_cell_index = 0, grant_nof_rbs = 2, ack_required = False\<rparr> 0
       (snd (allocate_dl_grant (first_fit 6)
            \<lparr>user = 1, grant_cell_index = 0, grant_nof_rbs = 3, ack_required = False\<rparr> 0
         (slot_indication 1
           (add_cell 0 \<lparr>pdcch_candidates = 4, pdcch_reserved = []\<rparr>
              \<lparr>uci_resources = 4, uci_reserved = []\<rparr> (new_cell_resource_allocator 3)
              new_ue_cell_grid_allocator)))))"

section \<open>Properties of bounded integers\<close>

text \<open>A number between two values of \<open>Integer\<close> survives the conversion to \<open>Integer\<close>.\<close>

lemma ival_word_of_int:
  fixes lo hi :: "'a::len word"
  assumes "ival sg lo \<le> v" and "v \<le> ival sg hi"
  shows "ival sg (word_of_int v :: 'a word) = v"
proof (cases sg)
  case True
  have "- (2 ^ (LENGTH('a) - 1)) \<le> v"
    using assms True sint_ge [of lo] by (simp add: ival_def)
  moreover have "v < 2 ^ (LENGTH('a) - 1)"
    using assms True sint_lt [of hi] by (simp add: ival_def)
  ultimately show ?thesis
    using True by (simp add: ival_def sint_sbintrunc' signed_take_bit_int_eq_self)
next
  case False
  have "uint lo \<le> v"
    using assms False by (simp add: ival_def)
  moreover have "0 \<le> uint lo"
    by simp
  ultimately have "0 \<le> v"
    by (rule order_trans [rotated])
  moreover have "v \<le> uint hi"
    using assms False by (simp add: ival_def)
  then have "v < 2 ^ LENGTH('a)"
    using uint_lt2p [of hi] by (rule le_less_trans)
  ultimately show ?thesis
    using False by (simp add: ival_def uint_word_of_int)
qed

text \<open>
  C10, as the code has it. The claim as written fails twice. A default-constructed object
  of \<open>bounded_integer<uint8_t, 0, 255>\<close> holds \<open>uint8_t(256) = 0\<close>, which is inside the
  bounds, so \<open>is_valid()\<close> is true. And \<open>sch_mcs_index(256)\<close>, the argument an \<open>int\<close>,
  checks and stores \<open>uint8_t(256) = 0\<close>: the value 256, outside \<open>{0, ..., 31}\<close>, raises no
  assertion.
\<close>

theorem bounded_integer_claim_counterexample:
  "is_valid False 0 255 (bounded_integer_default (255 :: 8 word)) \<and>
   bounded_integer_from False (0 :: 8 word) 31 256 = Inr \<lparr>bi_value = 0\<rparr>"
  by (simp add: is_valid_def bounded_integer_default_def bounded_integer_from_def
      assert_bounds_def ival_def)

text \<open>
  C10, amended. (1) When \<open>MAX_VALUE + 1\<close> does not wrap around in \<open>Integer\<close>, the
  default-constructed object holds \<open>MAX_VALUE + 1\<close> and \<open>is_valid()\<close> is false.
  (2) Constructing from, or assigning, a number \<open>v\<close> with
  \<open>MIN_VALUE \<le> v \<le> MAX_VALUE\<close> passes the assertion, stores \<open>v\<close>, and the object is
  valid afterwards. (3) A number that \<open>Integer\<close> can represent and that lies outside the
  bounds triggers the assertion in the constructor and in the assignment; nothing is
  returned.
\<close>

theorem bounded_integer_sentinel_and_bounds:
  fixes MIN_VALUE MAX_VALUE :: "'a::len word"
  shows
    "(ival sg (MAX_VALUE + 1) = ival sg MAX_VALUE + 1 \<longrightarrow>
        bi_value (bounded_integer_default MAX_VALUE) = MAX_VALUE + 1 \<and>
        \<not> is_valid sg MIN_VALUE MAX_VALUE (bounded_integer_default MAX_VALUE))
     \<and> (ival sg MIN_VALUE \<le> v \<and> v \<le> ival sg MAX_VALUE \<longrightarrow>
        (\<exists>b. bounded_integer_from sg MIN_VALUE MAX_VALUE v = Inr b \<and>
             ival sg (bi_value b) = v \<and> is_valid sg MIN_VALUE MAX_VALUE b) \<and>
        (\<exists>b. bounded_integer_assign sg MIN_VALUE MAX_VALUE this v = Inr b \<and>
             ival sg (bi_value b) = v \<and> is_valid sg MIN_VALUE MAX_VALUE b))
     \<and> (ival sg (word_of_int v :: 'a word) = v \<and>
        \<not> (ival sg MIN_VALUE \<le> v \<and> v \<le> ival sg MAX_VALUE) \<longrightarrow>
        bounded_integer_from sg MIN_VALUE MAX_VALUE v = Inl assertion_failure \<and>
        bounded_integer_assign sg MIN_VALUE MAX_VALUE this v = Inl assertion_failure)"
proof (intro conjI impI)
  show "bi_value (bounded_integer_default MAX_VALUE) = MAX_VALUE + 1"
    by (simp add: bounded_integer_default_def)
next
  assume "ival sg (MAX_VALUE + 1) = ival sg MAX_VALUE + 1"
  then show "\<not> is_valid sg MIN_VALUE MAX_VALUE (bounded_integer_default MAX_VALUE)"
    by (simp add: is_valid_def bounded_integer_default_def)
next
  assume inside: "ival sg MIN_VALUE \<le> v \<and> v \<le> ival sg MAX_VALUE"
  then have kept: "ival sg (word_of_int v :: 'a word) = v"
    using ival_word_of_int by blast
  from inside kept
  show "\<exists>b. bounded_integer_from sg MIN_VALUE MAX_VALUE v = Inr b \<and>
           ival sg (bi_value b) = v \<and> is_valid sg MIN_VALUE MAX_VALUE b"
    by (simp add: bounded_integer_from_def assert_bounds_def is_valid_def)
  from inside kept
  show "\<exists>b. bounded_integer_assign sg MIN_VALUE MAX_VALUE this v = Inr b \<and>
           ival sg (bi_value b) = v \<and> is_valid sg MIN_VALUE MAX_VALUE b"
    by (simp add: bounded_integer_assign_def assert_bounds_def is_valid_def)
next
  assume outside: "ival sg (word_of_int v :: 'a word) = v \<and>
    \<not> (ival sg MIN_VALUE \<le> v \<and> v \<le> ival sg MAX_VALUE)"
  then show "bounded_integer_from sg MIN_VALUE MAX_VALUE v = Inl assertion_failure"
    by (auto simp add: bounded_integer_from_def assert_bounds_def)
  from outside
  show "bounded_integer_assign sg MIN_VALUE MAX_VALUE this v = Inl assertion_failure"
    by (auto simp add: bounded_integer_assign_def assert_bounds_def)
qed

text \<open>
  The theorem at \<open>sch_mcs_index\<close>: the default value 32 is invalid, 17 is accepted and
  32 is refused.
\<close>

theorem bounded_integer_sentinel_and_bounds_witness:
  "ival False (31 + 1 :: 8 word) = ival False (31 :: 8 word) + 1
   \<and> \<not> is_valid False 0 31 (bounded_integer_default (31 :: 8 word))
   \<and> ival False (0 :: 8 word) \<le> 17 \<and> 17 \<le> ival False (31 :: 8 word)
   \<and> bounded_integer_from False (0 :: 8 word) 31 17 = Inr \<lparr>bi_value = 17\<rparr>
   \<and> is_valid False 0 31 \<lparr>bi_value = 17 :: 8 word\<rparr>
   \<and> ival False (word_of_int 32 :: 8 word) = 32
   \<and> \<not> (ival False (0 :: 8 word) \<le> 32 \<and> 32 \<le> ival False (31 :: 8 word))
   \<and> bounded_integer_assign False (0 :: 8 word) 31 \<lparr>bi_value = 17\<rparr> 32
       = Inl assertion_failure"
  using bounded_integer_sentinel_and_bounds [of False "31 :: 8 word" 0 17 "\<lparr>bi_value = 17\<rparr>"]
    bounded_integer_sentinel_and_bounds [of False "31 :: 8 word" 0 32 "\<lparr>bi_value = 17\<rparr>"]
  by (simp add: ival_def bounded_integer_from_def assert_bounds_def is_valid_def)

section \<open>Round trip of the 9-bit packing\<close>

subsection \<open>The constants of the two functions\<close>

lemma shift_mask_s16:
  "vcombine_s16 (vcreate_s16 0x0004000500060007) (vcreate_s16 0x0000000100020003) =
     [7, 6, 5, 4, 3, 2, 1, 0]"
  by code_simp

lemma mask_s16:
  "vcombine_s16 (vcreate_s16 0x1ff03fe07fc0ff80) (vcreate_s16 0x01ff03fe07fc0ff8) =
     [push_bit 7 (mask 9), push_bit 6 (mask 9), push_bit 5 (mask 9), push_bit 4 (mask 9),
      push_bit 3 (mask 9), push_bit 2 (mask 9), push_bit 1 (mask 9), push_bit 0 (mask 9)]"
  by code_simp

lemma pack_tbl:
  "vcombine_u8 (vcreate_u8 0x0c0a0806040200ff) (vcreate_u8 0xffffffffffffff0e) =
     [0xff, 0, 2, 4, 6, 8, 10, 12, 14, 0xff, 0xff, 0xff, 0xff, 0xff, 0xff, 0xff]"
  "vcombine_u8 (vcreate_u8 0x0f0d0b0907050301) (vcreate_u8 0xffffffffffffffff) =
     [1, 3, 5, 7, 9, 11, 13, 15, 0xff, 0xff, 0xff, 0xff, 0xff, 0xff, 0xff, 0xff]"
  by code_simp+

lemma unpack_tbl:
  "vcombine_u8 (vcreate_u8 0x0304020301020001) (vcreate_u8 0x0708060705060405) =
     [1, 0, 2, 1, 3, 2, 4, 3, 5, 4, 6, 5, 7, 6, 8, 7]"
  "vcombine_u8 (vcreate_u8 0x0c0d0b0c0a0b090a) (vcreate_u8 0x10110f100e0f0d0e) =
     [10, 9, 11, 10, 12, 11, 13, 12, 14, 13, 15, 14, 16, 15, 17, 16]"
  "vcombine_u8 (vcreate_u8 0x1516141513141213) (vcreate_u8 0x191a181917181617) =
     [19, 18, 20, 19, 21, 20, 22, 21, 23, 22, 24, 23, 25, 24, 26, 25]"
  "vcombine_s16 (vcreate_s16 0x0003000200010000) (vcreate_s16 0x0007000600050004) =
     [0, 1, 2, 3, 4, 5, 6, 7]"
  by code_simp+

lemma shifts:
  "shift_of 0 = 0" "shift_of 1 = 1" "shift_of 2 = 2" "shift_of 3 = 3"
  "shift_of 4 = 4" "shift_of 5 = 5" "shift_of 6 = 6" "shift_of 7 = 7"
  by (simp_all add: shift_of_def)

subsection \<open>What the two functions compute, lane by lane\<close>

text \<open>
  Byte \<open>j\<close> of a packed register holds the low bits of sample \<open>j - 1\<close> above the high bits
  of sample \<open>j\<close>.
\<close>

lemma pack_reg:
  "pack_neon_register_9b_big_endian [x0, x1, x2, x3, x4, x5, x6, x7] =
     [hi9 0 x0, lo9 0 x0 OR hi9 1 x1, lo9 1 x1 OR hi9 2 x2, lo9 2 x2 OR hi9 3 x3,
      lo9 3 x3 OR hi9 4 x4, lo9 4 x4 OR hi9 5 x5, lo9 5 x5 OR hi9 6 x6,
      lo9 6 x6 OR hi9 7 x7, lo9 7 x7, 0, 0, 0, 0, 0, 0, 0]"
  unfolding pack_neon_register_9b_big_endian_def shift_mask_s16 mask_s16 pack_tbl Let_def
  by (simp add: vshlq_s16_def vandq_s16_def vreinterpretq_s8_s16_def vqtbl1q_s8_def
      vorrq_u8_def shifts hi9_def lo9_def lane_word_def)

text \<open>Eight bytes read as a 64-bit lane and written back are the same eight bytes.\<close>

lemma u64_bytes:
  "map (\<lambda>i. ucast (drop_bit (8 * i) (vreinterpret_u64_u8 [b0, b1, b2, b3, b4, b5, b6, b7])))
     [0..<8] = [b0, b1, b2, b3, b4, b5, b6, b7]"
  apply (simp add: upt_rec vreinterpret_u64_u8_def)
  apply (intro conjI)
         apply (rule bit_word_eqI, auto simp add: bit_simps dest: bit_imp_le_length)+
  done

lemma vst1_u64_bytes:
  "vst1_u64 mem p (vreinterpret_u64_u8 [b0, b1, b2, b3, b4, b5, b6, b7]) =
     store mem p [b0, b1, b2, b3, b4, b5, b6, b7]"
  unfolding vst1_u64_def u64_bytes ..

lemma pack_prb:
  assumes "length buf = 27"
  shows "pack_prb_9b_big_endian buf
           ([x0, x1, x2, x3, x4, x5, x6, x7], [y0, y1, y2, y3, y4, y5, y6, y7],
            [z0, z1, z2, z3, z4, z5, z6, z7]) =
     Inr [hi9 0 x0, lo9 0 x0 OR hi9 1 x1, lo9 1 x1 OR hi9 2 x2, lo9 2 x2 OR hi9 3 x3,
          lo9 3 x3 OR hi9 4 x4, lo9 4 x4 OR hi9 5 x5, lo9 5 x5 OR hi9 6 x6,
          lo9 6 x6 OR hi9 7 x7, lo9 7 x7,
          hi9 0 y0, lo9 0 y0 OR hi9 1 y1, lo9 1 y1 OR hi9 2 y2, lo9 2 y2 OR hi9 3 y3,
          lo9 3 y3 OR hi9 4 y4, lo9 4 y4 OR hi9 5 y5, lo9 5 y5 OR hi9 6 y6,
          lo9 6 y6 OR hi9 7 y7, lo9 7 y7,
          hi9 0 z0, lo9 0 z0 OR hi9 1 z1, lo9 1 z1 OR hi9 2 z2, lo9 2 z2 OR hi9 3 z3,
          lo9 3 z3 OR hi9 4 z4, lo9 4 z4 OR hi9 5 z5, lo9 5 z5 OR hi9 6 z6,
          lo9 6 z6 OR hi9 7 z7, lo9 7 z7]"
  using assms
  by (simp add: pack_prb_9b_big_endian_def pack_reg BYTES_PER_PRB_9BIT_COMPRESSION_def
      bytes_per_half_reg_def vget_low_u8_def vst1_u64_bytes vst1q_lane_u8_def store_def
      bind_def Let_def)

text \<open>Sample \<open>k\<close> of group \<open>g\<close> is read from bytes \<open>9 g + k\<close> and \<open>9 g + k + 1\<close>.\<close>

lemma unpack_prb:
  assumes "length out = 24"
  shows "unpack_prb_9b_big_endian out
           [c0, c1, c2, c3, c4, c5, c6, c7, c8, c9, c10, c11, c12, c13, c14, c15, c16, c17,
            c18, c19, c20, c21, c22, c23, c24, c25, c26] =
     Inr [lane9 0 c0 c1, lane9 1 c1 c2, lane9 2 c2 c3, lane9 3 c3 c4, lane9 4 c4 c5,
          lane9 5 c5 c6, lane9 6 c6 c7, lane9 7 c7 c8,
          lane9 0 c9 c10, lane9 1 c10 c11, lane9 2 c11 c12, lane9 3 c12 c13, lane9 4 c13 c14,
          lane9 5 c14 c15, lane9 6 c15 c16, lane9 7 c16 c17,
          lane9 0 c18 c19, lane9 1 c19 c20, lane9 2 c20 c21, lane9 3 c21 c22, lane9 4 c22 c23,
          lane9 5 c23 c24, lane9 6 c24 c25, lane9 7 c25 c26]"
  using assms unfolding unpack_prb_9b_big_endian_def unpack_tbl Let_def
  by (simp add: vld1q_u8_def load_def bind_def vextq_u8_def vdupq_n_u8_def vqtbl2q_u8_def
      vshlq_u16_def shifts vshrq_n_s16_def vst1q_s16_def store_def lane9_def)

subsection \<open>One lane\<close>

text \<open>A sample that fits in nine bits repeats bit 8 in bits 9 to 15.\<close>

lemma sext9_bits:
  fixes x :: "16 word"
  assumes "- 256 \<le> sint x" and "sint x \<le> 255" and "8 \<le> m" and "m < 16"
  shows "bit x m = bit x 8"
proof -
  have s: "signed_take_bit 8 (sint x) = sint x"
    using assms(1,2) by (simp add: signed_take_bit_int_eq_self)
  have "bit x m = bit (sint x) m"
    using assms(4) by (simp add: bit_sint_iff)
  also have "\<dots> = bit (signed_take_bit 8 (sint x)) m"
    by (simp add: s)
  also have "\<dots> = bit (sint x) 8"
    using assms(3) by (simp add: bit_signed_take_bit_iff min_def)
  also have "\<dots> = bit x 8"
    by (simp add: bit_sint_iff)
  finally show ?thesis .
qed

text \<open>The bytes of lane \<open>k\<close> leave the bits of its two neighbours free.\<close>

lemma lo9_low_bits: "m < 7 - k \<Longrightarrow> \<not> bit (lo9 k y) m"
  by (simp add: lo9_def lane_word_def bit_simps)

lemma hi9_high_bits: "k \<le> 7 \<Longrightarrow> 8 - k \<le> m \<Longrightarrow> \<not> bit (hi9 k z) m"
  by (auto simp add: hi9_def lane_word_def bit_simps)

text \<open>
  The sample of lane \<open>k\<close> comes back, whatever its neighbours \<open>p\<close> and \<open>q\<close> wrote into the
  other bits of its two bytes.
\<close>

lemma lane9_mid:
  fixes x :: "16 word" and p q :: "8 word"
  assumes k: "k \<le> 7" and x: "- 256 \<le> sint x" "sint x \<le> 255"
    and p: "\<And>m. m < 8 - k \<Longrightarrow> \<not> bit p m"
    and q: "\<And>m. 7 - k \<le> m \<Longrightarrow> \<not> bit q m"
  shows "lane9 k (p OR hi9 k x) (lo9 k x OR q) = x"
proof (rule bit_word_eqI)
  fix n
  assume n: "n < LENGTH(16)"
  show "bit (lane9 k (p OR hi9 k x) (lo9 k x OR q)) n = bit x n"
  proof (cases "n < 9")
    case True
    have e: "Suc k \<le> n \<Longrightarrow> Suc (n - Suc k + k) = n"
      by arith
    from True show ?thesis
      using k p q n
      apply (simp add: lane9_def hi9_def lo9_def lane_word_def bit_simps)
      apply (cases "Suc k \<le> n")
       apply (simp_all add: e)
       apply (auto simp add: e)
      done
  next
    case False
    then show ?thesis
      using k p q n sext9_bits [OF x, of n]
      apply (simp add: lane9_def hi9_def lo9_def lane_word_def bit_simps)
      apply auto
      done
  qed
qed

lemma lane9_inner:
  assumes "k \<le> 5" and "- 256 \<le> sint x" and "sint x \<le> 255"
  shows "lane9 (Suc k) (lo9 k y OR hi9 (Suc k) x) (lo9 (Suc k) x OR hi9 (Suc (Suc k)) z) = x"
  using assms by (intro lane9_mid lo9_low_bits hi9_high_bits) simp_all

lemma lane9_first:
  assumes "- 256 \<le> sint x" and "sint x \<le> 255"
  shows "lane9 0 (hi9 0 x) (lo9 0 x OR hi9 (Suc 0) z) = x"
  using lane9_mid [of 0 x 0 "hi9 (Suc 0) z"] assms hi9_high_bits [of "Suc 0" _ z] by simp

lemma lane9_last:
  assumes "- 256 \<le> sint x" and "sint x \<le> 255"
  shows "lane9 7 (lo9 6 y OR hi9 7 x) (lo9 7 x) = x"
  using lane9_mid [of 7 x "lo9 6 y" 0] assms lo9_low_bits [of _ 6 y] by simp

lemma register_roundtrip:
  assumes "\<forall>x \<in> set [x0, x1, x2, x3, x4, x5, x6, x7]. - 256 \<le> sint x \<and> sint x \<le> 255"
  shows "[lane9 0 (hi9 0 x0) (lo9 0 x0 OR hi9 1 x1),
          lane9 1 (lo9 0 x0 OR hi9 1 x1) (lo9 1 x1 OR hi9 2 x2),
          lane9 2 (lo9 1 x1 OR hi9 2 x2) (lo9 2 x2 OR hi9 3 x3),
          lane9 3 (lo9 2 x2 OR hi9 3 x3) (lo9 3 x3 OR hi9 4 x4),
          lane9 4 (lo9 3 x3 OR hi9 4 x4) (lo9 4 x4 OR hi9 5 x5),
          lane9 5 (lo9 4 x4 OR hi9 5 x5) (lo9 5 x5 OR hi9 6 x6),
          lane9 6 (lo9 5 x5 OR hi9 6 x6) (lo9 6 x6 OR hi9 7 x7),
          lane9 7 (lo9 6 x6 OR hi9 7 x7) (lo9 7 x7)] = [x0, x1, x2, x3, x4, x5, x6, x7]"
  using assms lane9_first [of x0 x1] lane9_inner [of 0 x1 x0 x2] lane9_inner [of 1 x2 x1 x3]
    lane9_inner [of 2 x3 x2 x4] lane9_inner [of 3 x4 x3 x5] lane9_inner [of 4 x5 x4 x6]
    lane9_inner [of 5 x6 x5 x7] lane9_last [of x7 x6]
  by (simp add: numeral_eq_Suc)

subsection \<open>The block of 24 samples\<close>

lemma list8:
  assumes "length xs = 8"
  obtains x0 x1 x2 x3 x4 x5 x6 x7 where "xs = [x0, x1, x2, x3, x4, x5, x6, x7]"
  using assms by (auto simp add: numeral_eq_Suc length_Suc_conv)

text \<open>
  C9. Twenty-four 16-bit samples, each in \<open>[-256, 255]\<close>, are held by the three registers
  in order. \<open>pack_prb_9b_big_endian\<close> on a buffer of 27 bytes returns 27 packed bytes, and
  \<open>unpack_prb_9b_big_endian\<close> on these bytes and an output span of 24 elements returns
  exactly the 24 samples.
\<close>

theorem pack_unpack_prb_9b_roundtrip:
  assumes len: "length samples = 24"
    and range: "\<forall>x \<in> set samples. - 256 \<le> sint x \<and> sint x \<le> 255"
    and buf: "length comp_prb_buffer = 27"
    and out: "length unpacked_iq_data = 24"
  shows "\<exists>packed.
           pack_prb_9b_big_endian comp_prb_buffer
             (take 8 samples, take 8 (drop 8 samples), drop 16 samples) = Inr packed \<and>
           length packed = 27 \<and>
           unpack_prb_9b_big_endian unpacked_iq_data packed = Inr samples"
proof -
  obtain x0 x1 x2 x3 x4 x5 x6 x7
    where r0: "take 8 samples = [x0, x1, x2, x3, x4, x5, x6, x7]"
    using len by (auto intro: list8 [of "take 8 samples"])
  obtain y0 y1 y2 y3 y4 y5 y6 y7
    where r1: "take 8 (drop 8 samples) = [y0, y1, y2, y3, y4, y5, y6, y7]"
    using len by (auto intro: list8 [of "take 8 (drop 8 samples)"])
  obtain z0 z1 z2 z3 z4 z5 z6 z7
    where r2: "drop 16 samples = [z0, z1, z2, z3, z4, z5, z6, z7]"
    using len by (auto intro: list8 [of "drop 16 samples"])
  have "samples = take 8 samples @ take 8 (drop 8 samples) @ drop 16 samples"
    by (metis append_take_drop_id drop_drop numeral_Bit0)
  then have split: "samples = [x0, x1, x2, x3, x4, x5, x6, x7] @
      [y0, y1, y2, y3, y4, y5, y6, y7] @ [z0, z1, z2, z3, z4, z5, z6, z7]"
    by (simp only: r0 r1 r2)
  have rx: "\<forall>x \<in> set [x0, x1, x2, x3, x4, x5, x6, x7]. - 256 \<le> sint x \<and> sint x \<le> 255"
    and ry: "\<forall>x \<in> set [y0, y1, y2, y3, y4, y5, y6, y7]. - 256 \<le> sint x \<and> sint x \<le> 255"
    and rz: "\<forall>x \<in> set [z0, z1, z2, z3, z4, z5, z6, z7]. - 256 \<le> sint x \<and> sint x \<le> 255"
    using range unfolding split by simp_all
  show ?thesis
    unfolding r0 r1 r2 pack_prb [OF buf]
    using register_roundtrip [OF rx] register_roundtrip [OF ry] register_roundtrip [OF rz]
    by (simp add: unpack_prb [OF out] split)
qed

text \<open>
  The theorem on a concrete block: the samples \<open>1, -1, 255, -256, \<dots>\<close> pack into the 27
  bytes \<open>00 ff df f0 \<dots>\<close>, and these bytes unpack into the samples.
\<close>

lemma example_pack:
  "pack_prb_9b_big_endian (replicate 27 0)
     (take 8 example_samples, take 8 (drop 8 example_samples), drop 16 example_samples) =
   Inr example_packed"
  by (simp add: example_samples_def example_packed_def pack_prb hi9_def lo9_def lane_word_def
      mask_eq_exp_minus_1)

theorem pack_unpack_prb_9b_roundtrip_witness:
  "pack_prb_9b_big_endian (replicate 27 0)
     (take 8 example_samples, take 8 (drop 8 example_samples), drop 16 example_samples) =
     Inr example_packed \<and>
   unpack_prb_9b_big_endian (replicate 24 0) example_packed = Inr example_samples"
proof -
  have "length example_samples = 24"
    by (simp add: example_samples_def)
  moreover have "\<forall>x \<in> set example_samples. - 256 \<le> sint x \<and> sint x \<le> 255"
    by (simp add: example_samples_def)
  ultimately show ?thesis
    using pack_unpack_prb_9b_roundtrip [of example_samples "replicate 27 0" "replicate 24 0"]
    by (simp add: example_pack)
qed

section \<open>The slice allocators are decorators\<close>

text \<open>
  C2. \<open>allocate_dl_grant\<close> of the DL slice allocator returns the result of the wrapped
  call made with the candidate's slice id and leaves the grid allocator as that call
  left it; the slice candidate is the one \<open>store_grant\<close> returns for the granted RBs when
  the status is \<open>success\<close>, and is unchanged otherwise; when the wrapped call fails the
  result is not a success. The same holds for \<open>allocate_ul_grant\<close> of the UL slice
  allocator.
\<close>

theorem slice_allocator_is_decorator:
  fixes allocate_dl_grant :: "'grant \<Rightarrow> 'id \<Rightarrow> 'alloc \<Rightarrow> alloc_result \<times> 'alloc"
    and allocate_ul_grant :: "'ugrant \<Rightarrow> 'id \<Rightarrow> 'alloc \<Rightarrow> alloc_result \<times> 'alloc"
    and candidate_id :: "'cand \<Rightarrow> 'id"
    and store_grant :: "nat \<Rightarrow> 'cand \<Rightarrow> 'cand"
  defines "dl \<equiv>
      dl_slice_ue_cell_grid_allocator_allocate_dl_grant allocate_dl_grant candidate_id store_grant"
    and "ul \<equiv>
      ul_slice_ue_cell_grid_allocator_allocate_ul_grant allocate_ul_grant candidate_id store_grant"
    and "wrapped_dl \<equiv> \<lambda>grant alloc cand. allocate_dl_grant grant (candidate_id cand) alloc"
    and "wrapped_ul \<equiv> \<lambda>grant alloc cand. allocate_ul_grant grant (candidate_id cand) alloc"
  shows "fst (dl grant (alloc, cand)) = fst (wrapped_dl grant alloc cand)
       \<and> fst (snd (dl grant (alloc, cand))) = snd (wrapped_dl grant alloc cand)
       \<and> snd (snd (dl grant (alloc, cand))) =
           (if status (fst (wrapped_dl grant alloc cand)) = success
            then store_grant (alloc_nof_rbs (fst (wrapped_dl grant alloc cand))) cand
            else cand)
       \<and> (status (fst (wrapped_dl grant alloc cand)) \<noteq> success \<longrightarrow>
            status (fst (dl grant (alloc, cand))) \<noteq> success \<and>
            snd (snd (dl grant (alloc, cand))) = cand)
       \<and> fst (ul ugrant (alloc, cand)) = fst (wrapped_ul ugrant alloc cand)
       \<and> fst (snd (ul ugrant (alloc, cand))) = snd (wrapped_ul ugrant alloc cand)
       \<and> snd (snd (ul ugrant (alloc, cand))) =
           (if status (fst (wrapped_ul ugrant alloc cand)) = success
            then store_grant (alloc_nof_rbs (fst (wrapped_ul ugrant alloc cand))) cand
            else cand)
       \<and> (status (fst (wrapped_ul ugrant alloc cand)) \<noteq> success \<longrightarrow>
            status (fst (ul ugrant (alloc, cand))) \<noteq> success \<and>
            snd (snd (ul ugrant (alloc, cand))) = cand)"
  unfolding dl_def ul_def wrapped_dl_def wrapped_ul_def
    dl_slice_ue_cell_grid_allocator_allocate_dl_grant_def
    ul_slice_ue_cell_grid_allocator_allocate_ul_grant_def
  by (simp add: split_beta)

text \<open>
  The theorem on the counting allocator with 10 free RBs and slice 3, whose candidate has
  stored one grant of 4 RBs: a request of 6 RBs succeeds and is stored; a request of 11
  RBs fails, and the failure is returned with the candidate as it was.
\<close>

theorem slice_allocator_is_decorator_witness:
  "dl_slice_ue_cell_grid_allocator_allocate_dl_grant counting_allocate fst logging_store_grant
      6 (10, (3, [4])) = (\<lparr>status = success, alloc_nof_rbs = 6\<rparr>, 4, (3, [4, 6]))
   \<and> status (fst (counting_allocate 11 3 10)) \<noteq> success
   \<and> status (fst (ul_slice_ue_cell_grid_allocator_allocate_ul_grant counting_allocate fst
        logging_store_grant 11 (10, (3, [4])))) \<noteq> success
   \<and> snd (snd (ul_slice_ue_cell_grid_allocator_allocate_ul_grant counting_allocate fst
        logging_store_grant 11 (10, (3, [4])))) = (3, [4])"
  using slice_allocator_is_decorator
    [where allocate_dl_grant = counting_allocate and allocate_ul_grant = counting_allocate
       and candidate_id = fst and store_grant = logging_store_grant
       and grant = 6 and ugrant = 11 and alloc = 10 and cand = "(3, [4])"]
  by (simp add: counting_allocate_def logging_store_grant_def prod_eq_iff)

section \<open>Two TDD sub-patterns\<close>

text \<open>The class of a slot repeats with the overall period.\<close>

lemma classify_slot_periodic:
  "classify_slot cfg (slot + k * nof_slots_per_tdd_period cfg) = classify_slot cfg slot"
  by (simp add: classify_slot_def)

text \<open>
  C8. For a configuration with two sub-patterns: the overall period is the sum of the
  two periods; the class of a slot is the class of its index modulo the overall period,
  so it is the same for two slots whose indices agree modulo that period; an index below
  the first period is classified by the first sub-pattern, and any other index by the
  second sub-pattern, counted from the end of the first. When the overall period is
  positive the index is below it, and an index outside the first sub-pattern lies inside
  the second.
\<close>

theorem tdd_two_patterns_concatenate:
  assumes "pattern2 cfg = Some p2"
  defines "period \<equiv> period_in_slots (pattern1 cfg) + period_in_slots p2"
  shows "nof_slots_per_tdd_period cfg = period
       \<and> classify_slot cfg slot = classify_slot cfg (slot mod period)
       \<and> (slot mod period = slot' mod period \<longrightarrow> classify_slot cfg slot = classify_slot cfg slot')
       \<and> (slot mod period < period_in_slots (pattern1 cfg) \<longrightarrow>
            classify_slot cfg slot = classify_in_pattern (pattern1 cfg) (slot mod period))
       \<and> (period_in_slots (pattern1 cfg) \<le> slot mod period \<longrightarrow>
            classify_slot cfg slot =
              classify_in_pattern p2 (slot mod period - period_in_slots (pattern1 cfg)))
       \<and> (0 < period \<longrightarrow>
            slot mod period < period \<and>
            (period_in_slots (pattern1 cfg) \<le> slot mod period \<longrightarrow>
               slot mod period - period_in_slots (pattern1 cfg) < period_in_slots p2))"
proof -
  have p: "nof_slots_per_tdd_period cfg = period"
    using assms(1) by (simp add: nof_slots_per_tdd_period_def period_def)
  have same: "classify_slot cfg s = classify_slot cfg s'" if "s mod period = s' mod period"
    for s s'
    using that by (simp add: classify_slot_def p)
  have first: "classify_slot cfg slot = classify_in_pattern (pattern1 cfg) (slot mod period)"
    if "slot mod period < period_in_slots (pattern1 cfg)"
    using that by (simp add: classify_slot_def p)
  have second: "classify_slot cfg slot =
      classify_in_pattern p2 (slot mod period - period_in_slots (pattern1 cfg))"
    if "period_in_slots (pattern1 cfg) \<le> slot mod period"
    using that assms(1) by (simp add: classify_slot_def p)
  have inside: "slot mod period < period \<and>
      (period_in_slots (pattern1 cfg) \<le> slot mod period \<longrightarrow>
         slot mod period - period_in_slots (pattern1 cfg) < period_in_slots p2)"
    if "0 < period"
  proof -
    have "slot mod period < period"
      using that by simp
    then show ?thesis
      by (auto simp add: period_def)
  qed
  from p same [of slot "slot mod period"] same [of slot slot'] first second inside
  show ?thesis
    by simp
qed

text \<open>
  The theorem on \<open>{6, 3, 4, 2, 4}\<close> followed by \<open>{4, 4, 0, 0, 0}\<close>: the period is 10; slot 14
  has index 4 and is the first UL slot of the first sub-pattern; slot 27 has index 7, the
  second slot of the second sub-pattern, a DL slot, as slot 7 is.
\<close>

theorem tdd_two_patterns_concatenate_witness:
  "nof_slots_per_tdd_period example_tdd_cfg = 10
   \<and> classify_slot example_tdd_cfg 14 = classify_in_pattern (pattern1 example_tdd_cfg) 4
   \<and> classify_slot example_tdd_cfg 14 = fully_ul
   \<and> classify_slot example_tdd_cfg 27 = classify_slot example_tdd_cfg 7
   \<and> classify_slot example_tdd_cfg 27 = fully_dl"
  using tdd_two_patterns_concatenate [of example_tdd_cfg
      "\<lparr>period_in_slots = 4, nof_dl_slots = 4, nof_dl_symbols = 0, nof_ul_slots = 0,
        nof_ul_symbols = 0\<rparr>" 14 4]
    tdd_two_patterns_concatenate [of example_tdd_cfg
      "\<lparr>period_in_slots = 4, nof_dl_slots = 4, nof_dl_symbols = 0, nof_ul_slots = 0,
        nof_ul_symbols = 0\<rparr>" 27 7]
  by (simp add: example_tdd_cfg_def classify_in_pattern_def classify_slot_def
      nof_slots_per_tdd_period_def)

section \<open>Grants of one slot do not overlap\<close>

text \<open>Colliding is sharing a position, in either order.\<close>

lemma collides_positions: "collides a b \<longleftrightarrow> positions a \<inter> positions b \<noteq> {}"
proof
  assume "collides a b"
  then obtain rb where rb: "rb \<in> set (res_rbs a)" "rb \<in> set (res_rbs b)"
    and m: "max (fst (res_symbols a)) (fst (res_symbols b)) <
      min (snd (res_symbols a)) (snd (res_symbols b))"
    by (auto simp add: collides_def)
  let ?m = "max (fst (res_symbols a)) (fst (res_symbols b))"
  have "(rb, ?m) \<in> positions a \<inter> positions b"
    using rb m by (simp add: positions_def)
  then show "positions a \<inter> positions b \<noteq> {}"
    by blast
next
  assume "positions a \<inter> positions b \<noteq> {}"
  then obtain rb s where "(rb, s) \<in> positions a" and "(rb, s) \<in> positions b"
    by auto
  then show "collides a b"
    by (auto simp add: collides_def positions_def)
qed

lemma collides_sym: "collides a b \<longleftrightarrow> collides b a"
  by (auto simp add: collides_positions)

lemma grid_reserve_compatible:
  assumes "grid_reserve r rs = Some rs'" and "compatible rs"
  shows "compatible rs'"
  using assms by (auto simp add: grid_reserve_def split: if_splits)

lemma grid_of_ok: "grid_ok g \<Longrightarrow> compatible (grid_of d g)"
  by (cases d) (simp_all add: grid_ok_def)

lemma with_grid_ok: "grid_ok g \<Longrightarrow> compatible rs \<Longrightarrow> grid_ok (with_grid d rs g)"
  by (cases d) (simp_all add: grid_ok_def)

lemma window_ok_update:
  assumes "window_ok ca" and "grid_ok g"
  shows "window_ok (ca\<lparr>ring := (ring ca)[i := g]\<rparr>)"
  using assms set_update_subset_insert [of "ring ca" i g] by (auto simp add: window_ok_def)

lemma slot_grid_at_ok:
  assumes "window_ok ca" and "in_window ca sl"
  shows "grid_ok (slot_grid_at ca sl)"
proof -
  have "0 < length (ring ca)"
    using assms(2) by (auto simp add: in_window_def)
  then have "ring ca ! (sl mod length (ring ca)) \<in> set (ring ca)"
    by simp
  then show ?thesis
    using assms(1) by (simp add: window_ok_def slot_grid_at_def)
qed

lemma reserve_at_ok:
  assumes "reserve_at ca d r = Some ca'" and "window_ok ca"
  shows "window_ok ca'"
proof -
  from assms(1) obtain rs where w: "in_window ca (res_slot r)"
    and g: "grid_reserve r (grid_of d (slot_grid_at ca (res_slot r))) = Some rs"
    and ca': "ca' = ca\<lparr>ring := (ring ca)[res_slot r mod length (ring ca) :=
        with_grid d rs (slot_grid_at ca (res_slot r))]\<rparr>"
    by (auto simp add: reserve_at_def split: if_splits option.splits)
  have ok: "grid_ok (slot_grid_at ca (res_slot r))"
    using assms(2) w by (rule slot_grid_at_ok)
  then have "compatible rs"
    using g grid_of_ok grid_reserve_compatible by blast
  with ok have "grid_ok (with_grid d rs (slot_grid_at ca (res_slot r)))"
    by (rule with_grid_ok)
  with assms(2) show ?thesis
    unfolding ca' by (rule window_ok_update)
qed

lemma roll_ok: "window_ok ca \<Longrightarrow> window_ok (roll sl ca)"
proof -
  assume a: "window_ok ca"
  have e: "grid_ok empty_slot_grid"
    by (simp add: grid_ok_def empty_slot_grid_def)
  have "window_ok (ca\<lparr>ring := (ring ca)[(sl + length (ring ca) - 1) mod length (ring ca) := empty_slot_grid]\<rparr>)"
    using a e by (rule window_ok_update)
  then show ?thesis
    by (simp add: roll_def window_ok_def)
qed

lemma new_window_ok: "window_ok (new_cell_resource_allocator horizon)"
  by (simp add: new_cell_resource_allocator_def window_ok_def grid_ok_def empty_slot_grid_def)

lemma place_ok:
  assumes "place search d ue n ca sls no_space = (Some (ca', granted), no_space')"
    and "window_ok ca"
  shows "window_ok ca'"
  using assms
proof (induction sls arbitrary: no_space)
  case Nil
  then show ?case by simp
next
  case (Cons sl sls)
  then show ?case
    by (auto split: if_splits option.splits prod.splits dest: reserve_at_ok)
qed

lemma allocate_grant_ok:
  assumes "cells_ok this"
  shows "cells_ok (snd (allocate_grant search d grant slice_id this))"
proof -
  have keep: "cells_ok (with_no_space_list d l s) = cells_ok s" for l s
    by (cases d) (simp_all add: cells_ok_def)
  have keep': "cells_ok (count_attempt d s) = cells_ok s" for s
    by (cases d) (simp_all add: cells_ok_def)
  show ?thesis
    using assms
    by (auto simp add: allocate_grant_def keep keep' split: option.splits prod.splits if_splits)
       (auto simp add: cells_ok_def dest: place_ok)
qed

lemma slot_indication_ok:
  assumes "cells_ok this"
  shows "cells_ok (slot_indication sl this)"
  using assms by (auto simp add: cells_ok_def slot_indication_def cell_slot_indication_def roll_ok)

lemma add_cell_ok:
  assumes "cells_ok this"
  shows "cells_ok (add_cell idx pdcch uci (new_cell_resource_allocator horizon) this)"
  using assms by (auto simp add: cells_ok_def add_cell_def new_window_ok)

lemma reachable_ok: "reachable search this \<Longrightarrow> cells_ok this"
proof (induction rule: reachable.induct)
  case start
  then show ?case by (simp add: cells_ok_def new_ue_cell_grid_allocator_def)
next
  case (cell_added this idx pdcch uci horizon)
  then show ?case by (simp add: add_cell_ok)
next
  case (slot_indicated this sl)
  then show ?case by (simp add: slot_indication_ok)
next
  case (dl_allocated this grant slice_id)
  then show ?case by (simp add: allocate_dl_grant_def allocate_grant_ok)
next
  case (ul_allocated this grant slice_id)
  then show ?case by (simp add: allocate_ul_grant_def allocate_grant_ok)
qed

lemma compatible_filter: "compatible rs \<Longrightarrow> compatible (filter P rs)"
  by (induction rs) auto

lemma compatible_nth:
  assumes "compatible rs" and "i < j" and "j < length rs"
  shows "\<not> collides (rs ! i) (rs ! j)"
  using assms
proof (induction rs arbitrary: i j)
  case Nil
  then show ?case by simp
next
  case (Cons r rs)
  show ?case
  proof (cases i)
    case 0
    with Cons.prems show ?thesis by (cases j) auto
  next
    case (Suc i')
    with Cons.prems Cons.IH [of i' "j - 1"] show ?thesis by (cases j) auto
  qed
qed

text \<open>
  C1. In every state the scheduler can reach, whatever the search for free RBs, for every
  registered cell, every slot and each direction: two different grants emitted for that
  cell, slot and direction share no (RB, symbol) position.
\<close>

theorem no_overlapping_grants:
  assumes "reachable search this" and "cells this idx = Some c"
    and "i < length (ue_grants (cell_alloc c) sl d)"
    and "j < length (ue_grants (cell_alloc c) sl d)"
    and "i \<noteq> j"
  shows "positions (ue_grants (cell_alloc c) sl d ! i) \<inter>
         positions (ue_grants (cell_alloc c) sl d ! j) = {}"
proof -
  let ?ca = "cell_alloc c"
  have w: "window_ok ?ca"
    using reachable_ok [OF assms(1)] assms(2) by (auto simp add: cells_ok_def)
  have ne: "ring ?ca \<noteq> []"
    using assms(3) by (auto simp add: ue_grants_def split: if_splits)
  then have "slot_grid_at ?ca sl \<in> set (ring ?ca)"
    by (simp add: slot_grid_at_def)
  then have "compatible (grid_of d (slot_grid_at ?ca sl))"
    using w by (auto simp add: window_ok_def intro: grid_of_ok)
  then have c: "compatible (ue_grants ?ca sl d)"
    using ne by (simp add: ue_grants_def compatible_filter)
  consider "i < j" | "j < i"
    using assms(5) by arith
  then have "\<not> collides (ue_grants ?ca sl d ! i) (ue_grants ?ca sl d ! j)"
  proof cases
    case 1
    show ?thesis by (rule compatible_nth [OF c 1 assms(4)])
  next
    case 2
    have "\<not> collides (ue_grants ?ca sl d ! j) (ue_grants ?ca sl d ! i)"
      by (rule compatible_nth [OF c 2 assms(3)])
    then show ?thesis using collides_sym by blast
  qed
  then show ?thesis
    by (simp add: collides_positions)
qed

text \<open>
  The theorem on the example: the grants of terminals 1 and 2 for slot 1 of cell 0 are on
  RBs 0 to 2 and 3 to 4, and they share no position.
\<close>

lemma example_reachable: "reachable (first_fit 6) example_allocator"
  unfolding example_allocator_def by (intro reachable.intros)

lemma example_grants:
  "\<exists>c. cells example_allocator 0 = Some c \<and>
     ue_grants (cell_alloc c) 1 DL =
       [\<lparr>owner = terminal 2, res_slot = 1, res_rbs = [3, 4], res_symbols = (0, 14)\<rparr>,
        \<lparr>owner = terminal 1, res_slot = 1, res_rbs = [0, 1, 2], res_symbols = (0, 14)\<rparr>]"
  by (simp add: example_allocator_def allocate_dl_grant_def allocate_grant_def add_cell_def
      slot_indication_def cell_slot_indication_def new_ue_cell_grid_allocator_def
      new_cell_resource_allocator_def roll_def pdcch_reserve_def candidate_slots_def
      first_fit_def slot_grid_at_def empty_slot_grid_def reserve_at_def in_window_def
      grid_reserve_def collides_def ue_grants_def upt_rec)

theorem no_overlapping_grants_witness:
  "reachable (first_fit 6) example_allocator
   \<and> (\<exists>c. cells example_allocator 0 = Some c \<and>
          ue_grants (cell_alloc c) 1 DL =
            [\<lparr>owner = terminal 2, res_slot = 1, res_rbs = [3, 4], res_symbols = (0, 14)\<rparr>,
             \<lparr>owner = terminal 1, res_slot = 1, res_rbs = [0, 1, 2], res_symbols = (0, 14)\<rparr>])
   \<and> positions \<lparr>owner = terminal 2, res_slot = 1, res_rbs = [3, 4], res_symbols = (0, 14)\<rparr> \<inter>
       positions \<lparr>owner = terminal 1, res_slot = 1, res_rbs = [0, 1, 2], res_symbols = (0, 14)\<rparr>
       = {}"
proof -
  from example_grants obtain c where c: "cells example_allocator 0 = Some c"
    and g: "ue_grants (cell_alloc c) 1 DL =
      [\<lparr>owner = terminal 2, res_slot = 1, res_rbs = [3, 4], res_symbols = (0, 14)\<rparr>,
       \<lparr>owner = terminal 1, res_slot = 1, res_rbs = [0, 1, 2], res_symbols = (0, 14)\<rparr>]"
    by blast
  have i: "0 < length (ue_grants (cell_alloc c) 1 DL)"
    and j: "1 < length (ue_grants (cell_alloc c) 1 DL)"
    unfolding g by simp_all
  have ne: "(0::nat) \<noteq> 1"
    by simp
  have "positions (ue_grants (cell_alloc c) 1 DL ! 0) \<inter>
      positions (ue_grants (cell_alloc c) 1 DL ! 1) = {}"
    by (rule no_overlapping_grants [OF example_reachable c i j ne])
  then have "positions \<lparr>owner = terminal 2, res_slot = 1, res_rbs = [3, 4], res_symbols = (0, 14)\<rparr> \<inter>
      positions \<lparr>owner = terminal 1, res_slot = 1, res_rbs = [0, 1, 2], res_symbols = (0, 14)\<rparr>
      = {}"
    unfolding g by simp
  with example_reachable example_grants show ?thesis
    by blast
qed

end
